theory Spec2Isabelle
  imports Main "HOL-Library.Sublist"
begin

section \<open>Orbit dashboard: credential rotation and request dispatch\<close>

text \<open>
  A shallow embedding of the key-rotation and retry core of \<^verbatim>\<open>dashboard.py\<close>:
  \<^verbatim>\<open>configure_genai\<close>, \<^verbatim>\<open>resolve_model_name\<close>, \<^verbatim>\<open>rotate_key\<close>, \<^verbatim>\<open>ask_orbit\<close> and the
  module-level initialisation that precedes them. Python integers are \<open>int\<close>, strings
  are \<open>string\<close> (error messages and model names are taken to be ASCII), exceptions are
  values of \<open>py_error\<close>, and the module globals and \<^verbatim>\<open>st.session_state\<close> are fields of an
  explicit state record that every function takes and returns.
\<close>

subsection \<open>Python primitives used by the source\<close>

datatype py_error = ZeroDivisionError | IndexError

text \<open>\<^verbatim>\<open>a % b\<close> on Python integers: floor modulus, raising when \<^verbatim>\<open>b\<close> is zero.\<close>

definition py_mod :: "int \<Rightarrow> int \<Rightarrow> py_error + int" where
  "py_mod a b = (if b = 0 then Inl ZeroDivisionError else Inr (a mod b))"

text \<open>\<^verbatim>\<open>xs[i]\<close> on a Python list: a negative index counts from the end.\<close>

definition py_index :: "'a list \<Rightarrow> int \<Rightarrow> py_error + 'a" where
  "py_index xs i =
     (let n = int (length xs);
          j = (if i < 0 then i + n else i)
      in if j < 0 \<or> n \<le> j then Inl IndexError else Inr (xs ! nat j))"

text \<open>\<^verbatim>\<open>sub in s\<close> on strings: \<^verbatim>\<open>sub\<close> occurs as a contiguous block of \<^verbatim>\<open>s\<close>.\<close>

fun str_in :: "string \<Rightarrow> string \<Rightarrow> bool" where
  "str_in sub [] = (sub = [])"
| "str_in sub (c # cs) = (prefix sub (c # cs) \<or> str_in sub cs)"

text \<open>\<^verbatim>\<open>s.lower()\<close> on an ASCII string.\<close>

definition char_lower :: "char \<Rightarrow> char" where
  "char_lower c =
     (let n = (of_char c :: nat)
      in if 65 \<le> n \<and> n \<le> 90 then char_of (n + 32) else c)"

definition lower :: "string \<Rightarrow> string" where
  "lower s = map char_lower s"

text \<open>
  \<^verbatim>\<open>s.replace(old, new)\<close>: every occurrence of \<^verbatim>\<open>old\<close>, found scanning from the left
  and not overlapping an earlier one, is replaced. With an empty \<^verbatim>\<open>old\<close> Python puts
  \<^verbatim>\<open>new\<close> before every character and at the end.
\<close>

function replace :: "string \<Rightarrow> string \<Rightarrow> string \<Rightarrow> string" where
  "replace old new s =
     (if old = [] then new @ concat (map (\<lambda>c. c # new) s)
      else if s = [] then []
      else if prefix old s then new @ replace old new (drop (length old) s)
      else hd s # replace old new (tl s))"
  by pat_completeness auto
termination
  by (relation "measure (\<lambda>(old, new, s). length s)") (auto simp: neq_Nil_conv)

subsection \<open>State\<close>

text \<open>
  A model handle is what \<^verbatim>\<open>genai.GenerativeModel(name)\<close> builds: it carries the model
  name it was built with and talks to the backend with the credential that
  \<^verbatim>\<open>genai.configure\<close> had installed when it was built.
\<close>

record model_handle =
  handle_model :: string
  handle_key :: "string option"

text \<open>
  The part of the state that exists before the model name is resolved: the cursor
  \<^verbatim>\<open>st.session_state.key_index\<close>, the credential installed in the \<^verbatim>\<open>genai\<close> library, and
  the backend's own record of what it was asked: the handles of the
  \<^verbatim>\<open>generate_content\<close> requests in order, and the number of \<^verbatim>\<open>list_models\<close> probes.
\<close>

record env =
  key_index :: int
  api_key :: "string option"
  requests :: "model_handle list"
  probes :: nat

text \<open>
  The state the three functions below the initialisation run in: \<^verbatim>\<open>env\<close> together with
  \<^verbatim>\<open>st.session_state.model_name\<close> and the module global \<^verbatim>\<open>model\<close>. Both are assigned at
  module level before any of these functions can be called.
\<close>

record world = env +
  model_name :: string
  model :: model_handle

definition GenerativeModel :: "string \<Rightarrow> 'a env_scheme \<Rightarrow> model_handle" where
  "GenerativeModel nm w = \<lparr>handle_model = nm, handle_key = api_key w\<rparr>"

subsection \<open>\<^verbatim>\<open>configure_genai\<close>\<close>

text \<open>
  The whole body is inside \<^verbatim>\<open>try\<close>: an exception of the modulus or of the list lookup
  makes the function return \<^verbatim>\<open>False\<close> with nothing configured.
\<close>

definition configure_genai :: "string list \<Rightarrow> 'a env_scheme \<Rightarrow> bool \<times> 'a env_scheme" where
  "configure_genai GEMINI_API_KEYS w =
     (case py_mod (key_index w) (int (length GEMINI_API_KEYS)) of
        Inl e \<Rightarrow> (False, w)
      | Inr idx \<Rightarrow>
          (case py_index GEMINI_API_KEYS idx of
             Inl e \<Rightarrow> (False, w)
           | Inr current_key \<Rightarrow> (True, w\<lparr>api_key := Some current_key\<rparr>)))"

subsection \<open>\<^verbatim>\<open>rotate_key\<close>\<close>

text \<open>
  Nothing here is inside \<^verbatim>\<open>try\<close>, so an exception of the modulus would leave the
  function; the result is a sum with the exception on the left.
\<close>

definition rotate_key :: "string list \<Rightarrow> world \<Rightarrow> py_error + (bool \<times> world)" where
  "rotate_key GEMINI_API_KEYS w =
     (if length GEMINI_API_KEYS \<le> 1 then Inr (False, w)
      else
        (case py_mod (key_index w + 1) (int (length GEMINI_API_KEYS)) of
           Inl e \<Rightarrow> Inl e
         | Inr k \<Rightarrow>
             (let w1 = w\<lparr>key_index := k\<rparr>;
                  w2 = snd (configure_genai GEMINI_API_KEYS w1);
                  w3 = w2\<lparr>model := GenerativeModel (model_name w2) w2\<rparr>
              in Inr (True, w3))))"

subsection \<open>\<^verbatim>\<open>resolve_model_name\<close>\<close>

text \<open>One entry of the catalog that \<^verbatim>\<open>genai.list_models()\<close> yields.\<close>

record model_info =
  name :: string
  supported_generation_methods :: "string list"

text \<open>
  The two \<^verbatim>\<open>for\<close> loops over \<^verbatim>\<open>valid_models\<close>: each returns from the function at the
  first name that passes its test, and falls through (\<open>None\<close>) when no name does.
\<close>

fun priority1 :: "string list \<Rightarrow> string option" where
  "priority1 [] = None"
| "priority1 (m # ms) =
     (if str_in ''gemini-1.5-flash'' m \<and> \<not> str_in ''latest'' m \<and> \<not> str_in ''exp'' m
      then Some (replace ''models/'' '''' m)
      else priority1 ms)"

fun priority2 :: "string list \<Rightarrow> string option" where
  "priority2 [] = None"
| "priority2 (m # ms) =
     (if str_in ''flash'' m \<and> \<not> str_in ''gemini-2'' m \<and> \<not> str_in ''exp'' m
      then Some (replace ''models/'' '''' m)
      else priority2 ms)"

text \<open>
  The catalog argument is the backend's answer to the probe: \<open>None\<close> when
  \<^verbatim>\<open>genai.list_models()\<close> raises, which the \<^verbatim>\<open>except\<close> clause turns into the fallback.
  The probe is counted in \<open>probes\<close>.
\<close>

definition resolve_model_name ::
  "string list \<Rightarrow> model_info list option \<Rightarrow> 'a env_scheme \<Rightarrow> string \<times> 'a env_scheme" where
  "resolve_model_name GEMINI_API_KEYS catalog w =
     (let w1 = snd (configure_genai GEMINI_API_KEYS w);
          w2 = w1\<lparr>probes := probes w1 + 1\<rparr>
      in case catalog of
           None \<Rightarrow> (''gemini-1.5-flash'', w2)
         | Some models \<Rightarrow>
             (let valid_models =
                    map name (filter (\<lambda>m. ''generateContent'' \<in> set (supported_generation_methods m)) models)
              in case priority1 valid_models of
                   Some r \<Rightarrow> (r, w2)
                 | None \<Rightarrow>
                     (case priority2 valid_models of
                        Some r \<Rightarrow> (r, w2)
                      | None \<Rightarrow>
                          (if valid_models \<noteq> [] then (replace ''models/'' '''' (hd valid_models), w2)
                           else (''gemini-1.5-flash'', w2)))))"

subsection \<open>Module-level initialisation\<close>

text \<open>
  Streamlit runs the script from the top on every interaction; \<^verbatim>\<open>st.session_state\<close>
  survives from one run to the next. \<open>init_key_index\<close> is line 42, applied to the stored
  cursor (\<open>None\<close> in a fresh session). \<open>startup\<close> is lines 80 to 86, applied to the stored
  model name: the name is resolved only when none is stored, then the credential is
  configured and the handle built.
\<close>

definition init_key_index :: "int option \<Rightarrow> int" where
  "init_key_index stored = (case stored of None \<Rightarrow> 0 | Some k \<Rightarrow> k)"

definition startup ::
  "string list \<Rightarrow> model_info list option \<Rightarrow> string option \<Rightarrow> env \<Rightarrow> world" where
  "startup GEMINI_API_KEYS catalog stored e =
     (let (nm, e1) = (case stored of
                        None \<Rightarrow> resolve_model_name GEMINI_API_KEYS catalog e
                      | Some nm \<Rightarrow> (nm, e));
          e2 = snd (configure_genai GEMINI_API_KEYS e1)
      in \<lparr>key_index = key_index e2, api_key = api_key e2, requests = requests e2,
          probes = probes e2, model_name = nm, model = GenerativeModel nm e2\<rparr>)"

subsection \<open>\<^verbatim>\<open>ask_orbit\<close>\<close>

text \<open>
  What \<^verbatim>\<open>model.generate_content(prompt)\<close> does: it returns a response or raises an
  exception whose text is \<^verbatim>\<open>str(e)\<close>. The backend is any function of the requests it has
  seen so far, the handle and the prompt.
\<close>

datatype 'r outcome = Response 'r | Raised string

type_synonym 'r backend = "model_handle list \<Rightarrow> model_handle \<Rightarrow> string \<Rightarrow> 'r outcome"

definition generate_content :: "'r backend \<Rightarrow> string \<Rightarrow> world \<Rightarrow> 'r outcome \<times> world" where
  "generate_content backend prompt w =
     (backend (requests w) (model w) prompt, w\<lparr>requests := requests w @ [model w]\<rparr>)"

definition is_quota :: "string \<Rightarrow> bool" where
  "is_quota err_msg \<longleftrightarrow>
     str_in ''429'' err_msg \<or> str_in ''quota'' (lower err_msg) \<or> str_in ''ResourceExhausted'' err_msg"

definition is_auth :: "string \<Rightarrow> bool" where
  "is_auth err_msg \<longleftrightarrow>
     str_in ''403'' err_msg \<or> str_in ''leaked'' (lower err_msg) \<or> str_in ''API key'' err_msg"

text \<open>
  The body of \<^verbatim>\<open>for attempt in range(max_retries)\<close>, by recursion on the attempts still
  to run. Running out of attempts is the \<^verbatim>\<open>return None\<close> after the loop. An exception
  raised inside the \<^verbatim>\<open>except\<close> block (by \<^verbatim>\<open>rotate_key\<close>) would leave \<^verbatim>\<open>ask_orbit\<close>.
  What the backend raises is an \<^verbatim>\<open>Exception\<close>, which \<^verbatim>\<open>except Exception\<close> catches; the
  calls into Streamlit and the standard library on the way (\<^verbatim>\<open>st.toast\<close>, \<^verbatim>\<open>time.sleep\<close>,
  \<^verbatim>\<open>print\<close>) and the constructor \<^verbatim>\<open>genai.GenerativeModel\<close> are taken to return normally,
  and the pauses are not modelled. The attempt counter is a natural number:
  \<^verbatim>\<open>max_retries - 1\<close> is only evaluated inside the loop, where \<^verbatim>\<open>max_retries\<close> is at least 1.
\<close>

fun ask_orbit_loop ::
  "string list \<Rightarrow> 'r backend \<Rightarrow> string \<Rightarrow> nat \<Rightarrow> nat list \<Rightarrow> world \<Rightarrow> py_error + ('r option \<times> world)" where
  "ask_orbit_loop GEMINI_API_KEYS backend prompt max_retries [] w = Inr (None, w)"
| "ask_orbit_loop GEMINI_API_KEYS backend prompt max_retries (attempt # rest) w =
     (case generate_content backend prompt w of
        (Response r, w1) \<Rightarrow> Inr (Some r, w1)
      | (Raised err_msg, w1) \<Rightarrow>
          (if is_quota err_msg \<or> is_auth err_msg then
             (case rotate_key GEMINI_API_KEYS w1 of
                Inl e \<Rightarrow> Inl e
              | Inr (rotated, w2) \<Rightarrow>
                  (if rotated then ask_orbit_loop GEMINI_API_KEYS backend prompt max_retries rest w2
                   else Inr (None, w2)))
           else if attempt < max_retries - 1 then
             ask_orbit_loop GEMINI_API_KEYS backend prompt max_retries rest w1
           else Inr (None, w1)))"

definition ask_orbit ::
  "string list \<Rightarrow> 'r backend \<Rightarrow> string \<Rightarrow> world \<Rightarrow> py_error + ('r option \<times> world)" where
  "ask_orbit GEMINI_API_KEYS backend prompt w =
     (let max_retries = length GEMINI_API_KEYS + 1
      in ask_orbit_loop GEMINI_API_KEYS backend prompt max_retries [0..<max_retries] w)"

subsection \<open>Scenarios the properties are stated on\<close>


text \<open>
  The state after one failed attempt followed by a successful rotation, written out:
  the request is logged, the cursor advances, the credential under the new cursor is
  installed and the handle is rebuilt with the same model name.
\<close>

definition rotated_handle :: "string list \<Rightarrow> string \<Rightarrow> int \<Rightarrow> model_handle" where
  "rotated_handle GEMINI_API_KEYS nm c =
     \<lparr>handle_model = nm,
      handle_key = Some (GEMINI_API_KEYS ! nat (c mod int (length GEMINI_API_KEYS)))\<rparr>"

definition fail_and_rotate :: "string list \<Rightarrow> world \<Rightarrow> world" where
  "fail_and_rotate GEMINI_API_KEYS w =
     (let k = (key_index w + 1) mod int (length GEMINI_API_KEYS)
      in w\<lparr>requests := requests w @ [model w],
           key_index := k,
           api_key := Some (GEMINI_API_KEYS ! nat k),
           model := rotated_handle GEMINI_API_KEYS (model_name w) (key_index w + 1)\<rparr>)"

text \<open>
  Attempt \<open>i\<close> (counted from 0) of a dispatch that starts in \<open>w\<close> and has not rotated
  so far fails with a Transient-class error: the backend, having seen \<open>i\<close> more requests
  through the same handle, raises an exception whose text is of neither other class.
\<close>

definition transient_at :: "'r backend \<Rightarrow> string \<Rightarrow> world \<Rightarrow> nat \<Rightarrow> bool" where
  "transient_at backend prompt w i \<longleftrightarrow>
     (\<exists>msg. backend (requests w @ replicate i (model w)) (model w) prompt = Raised msg
            \<and> \<not> is_quota msg \<and> \<not> is_auth msg)"

text \<open>
  The selection rule of the model-name resolution as the specification words it: the
  first capable name of the first non-empty priority class, with every \<^verbatim>\<open>models/\<close>
  removed, and the fallback when there is no capable name.
\<close>

definition capable :: "model_info list \<Rightarrow> string list" where
  "capable models =
     map name (filter (\<lambda>m. ''generateContent'' \<in> set (supported_generation_methods m)) models)"

definition is_flash_15 :: "string \<Rightarrow> bool" where
  "is_flash_15 m \<longleftrightarrow>
     str_in ''gemini-1.5-flash'' m \<and> \<not> str_in ''latest'' m \<and> \<not> str_in ''exp'' m"

definition is_any_flash :: "string \<Rightarrow> bool" where
  "is_any_flash m \<longleftrightarrow> str_in ''flash'' m \<and> \<not> str_in ''gemini-2'' m \<and> \<not> str_in ''exp'' m"

definition select_by_priority :: "string list \<Rightarrow> string" where
  "select_by_priority valid_models =
     (case find is_flash_15 valid_models of
        Some m \<Rightarrow> replace ''models/'' '''' m
      | None \<Rightarrow>
          (case find is_any_flash valid_models of
             Some m \<Rightarrow> replace ''models/'' '''' m
           | None \<Rightarrow>
               (case valid_models of
                  [] \<Rightarrow> ''gemini-1.5-flash''
                | m # ms \<Rightarrow> replace ''models/'' '''' m)))"

text \<open>
  A session: the first run of the script on a fresh \<^verbatim>\<open>st.session_state\<close>, then any
  sequence of reruns (each of which might get a different answer from the catalog, were
  it asked) and of calls of \<^verbatim>\<open>ask_orbit\<close> against any backend.
\<close>

datatype 'r event = Rerun "model_info list option" | Ask "'r backend" string

definition first_run :: "string list \<Rightarrow> model_info list option \<Rightarrow> env \<Rightarrow> world" where
  "first_run GEMINI_API_KEYS catalog e =
     startup GEMINI_API_KEYS catalog None (e\<lparr>key_index := init_key_index None\<rparr>)"

definition rerun :: "string list \<Rightarrow> model_info list option \<Rightarrow> world \<Rightarrow> world" where
  "rerun GEMINI_API_KEYS catalog w =
     startup GEMINI_API_KEYS catalog (Some (model_name w))
       \<lparr>key_index = init_key_index (Some (key_index w)), api_key = api_key w,
        requests = requests w, probes = probes w\<rparr>"

fun session_run :: "string list \<Rightarrow> 'r event list \<Rightarrow> world \<Rightarrow> py_error + world" where
  "session_run GEMINI_API_KEYS [] w = Inr w"
| "session_run GEMINI_API_KEYS (Rerun catalog # evs) w =
     session_run GEMINI_API_KEYS evs (rerun GEMINI_API_KEYS catalog w)"
| "session_run GEMINI_API_KEYS (Ask backend prompt # evs) w =
     (case ask_orbit GEMINI_API_KEYS backend prompt w of
        Inl e \<Rightarrow> Inl e
      | Inr (r, w1) \<Rightarrow> session_run GEMINI_API_KEYS evs w1)"

section \<open>Properties\<close>

subsection \<open>Credential selection\<close>

lemma py_mod_pos: "b \<noteq> 0 \<Longrightarrow> py_mod a b = Inr (a mod b)"
  by (simp add: py_mod_def)

lemma py_index_in_range: "0 \<le> i \<Longrightarrow> i < int (length xs) \<Longrightarrow> py_index xs i = Inr (xs ! nat i)"
  by (simp add: py_index_def Let_def)

lemma configure_genai_nonempty:
  "GEMINI_API_KEYS \<noteq> [] \<Longrightarrow>
   configure_genai GEMINI_API_KEYS w =
     (True, w\<lparr>api_key := Some (GEMINI_API_KEYS ! nat (key_index w mod int (length GEMINI_API_KEYS)))\<rparr>)"
  by (simp add: configure_genai_def py_mod_pos py_index_in_range)

text \<open>
  C10. For every integer cursor, in range or not, and every non-empty pool,
  \<^verbatim>\<open>configure_genai\<close> computes the index \<open>cursor mod length\<close> without raising, the index is
  within the bounds of the pool, the lookup succeeds, and the credential found there is
  the one installed; the function returns \<^verbatim>\<open>True\<close>.
\<close>

theorem configure_genai_wraps:
  assumes "GEMINI_API_KEYS \<noteq> []"
  shows "\<exists>idx current_key.
           py_mod (key_index w) (int (length GEMINI_API_KEYS)) = Inr idx
         \<and> idx = key_index w mod int (length GEMINI_API_KEYS)
         \<and> 0 \<le> idx \<and> idx < int (length GEMINI_API_KEYS)
         \<and> py_index GEMINI_API_KEYS idx = Inr current_key
         \<and> current_key = GEMINI_API_KEYS ! nat idx
         \<and> configure_genai GEMINI_API_KEYS w = (True, w\<lparr>api_key := Some current_key\<rparr>)"
  using assms by (simp add: configure_genai_nonempty py_mod_pos py_index_in_range)

theorem configure_genai_wraps_witness:
  "[''a'', ''b''] \<noteq> ([] :: string list)
   \<and> configure_genai [''a'', ''b'']
        \<lparr>key_index = 5, api_key = None, requests = [], probes = 0\<rparr>
      = (True, \<lparr>key_index = 5, api_key = Some ''b'', requests = [], probes = 0\<rparr>)"
  using configure_genai_wraps
    [of "[''a'', ''b'']" "\<lparr>key_index = 5, api_key = None, requests = [], probes = 0\<rparr>"]
  by simp

subsection \<open>Rotation\<close>

lemma rotate_key_many:
  assumes len: "2 \<le> length GEMINI_API_KEYS"
  shows "rotate_key GEMINI_API_KEYS w =
     (let k = (key_index w + 1) mod int (length GEMINI_API_KEYS)
      in Inr (True, w\<lparr>key_index := k,
                       api_key := Some (GEMINI_API_KEYS ! nat k),
                       model := rotated_handle GEMINI_API_KEYS (model_name w) (key_index w + 1)\<rparr>))"
proof -
  from len have ne: "GEMINI_API_KEYS \<noteq> []" and nz: "int (length GEMINI_API_KEYS) \<noteq> 0"
    by auto
  from len show ?thesis
    by (simp add: rotate_key_def py_mod_pos [OF nz] configure_genai_nonempty [OF ne]
        Let_def GenerativeModel_def rotated_handle_def)
qed

lemma rotate_key_single:
  "length GEMINI_API_KEYS \<le> 1 \<Longrightarrow> rotate_key GEMINI_API_KEYS w = Inr (False, w)"
  by (simp add: rotate_key_def)

text \<open>
  C2. With at least two credentials \<^verbatim>\<open>rotate_key\<close> returns \<^verbatim>\<open>True\<close> and the cursor becomes
  \<open>(cursor + 1) mod length\<close>; with exactly one credential it returns \<^verbatim>\<open>False\<close> and the
  whole state, the cursor included, is as before. Both hold for every starting cursor.
\<close>

theorem rotate_key_contract:
  "(2 \<le> length GEMINI_API_KEYS \<longrightarrow>
      (\<exists>w'. rotate_key GEMINI_API_KEYS w = Inr (True, w')
           \<and> key_index w' = (key_index w + 1) mod int (length GEMINI_API_KEYS)))
   \<and> (length GEMINI_API_KEYS = 1 \<longrightarrow> rotate_key GEMINI_API_KEYS w = Inr (False, w))"
  by (simp add: rotate_key_many rotate_key_single Let_def)

theorem rotate_key_contract_witness:
  "2 \<le> length [''a'', ''b'', ''c'']
   \<and> rotate_key [''a'', ''b'', ''c'']
        \<lparr>key_index = 2, api_key = Some ''c'', requests = [], probes = 1, model_name = ''m'',
         model = \<lparr>handle_model = ''m'', handle_key = Some ''c''\<rparr>\<rparr>
      = Inr (True,
        \<lparr>key_index = 0, api_key = Some ''a'', requests = [], probes = 1, model_name = ''m'',
         model = \<lparr>handle_model = ''m'', handle_key = Some ''a''\<rparr>\<rparr>)
   \<and> length [''a''] = 1
   \<and> rotate_key [''a'']
        \<lparr>key_index = 0, api_key = Some ''a'', requests = [], probes = 1, model_name = ''m'',
         model = \<lparr>handle_model = ''m'', handle_key = Some ''a''\<rparr>\<rparr>
      = Inr (False,
        \<lparr>key_index = 0, api_key = Some ''a'', requests = [], probes = 1, model_name = ''m'',
         model = \<lparr>handle_model = ''m'', handle_key = Some ''a''\<rparr>\<rparr>)"
  using rotate_key_contract
    [of "[''a'', ''b'', ''c'']"
        "\<lparr>key_index = 2, api_key = Some ''c'', requests = [], probes = 1, model_name = ''m'',
         model = \<lparr>handle_model = ''m'', handle_key = Some ''c''\<rparr>\<rparr>"]
    rotate_key_contract
    [of "[''a'']"
        "\<lparr>key_index = 0, api_key = Some ''a'', requests = [], probes = 1, model_name = ''m'',
         model = \<lparr>handle_model = ''m'', handle_key = Some ''a''\<rparr>\<rparr>"]
  by (simp add: rotate_key_def py_mod_def configure_genai_def py_index_def GenerativeModel_def)






subsection \<open>Dispatch\<close>

text \<open>One pass through the body of the retry loop, by what the backend answers.\<close>

lemma loop_step_response:
  "backend (requests w) (model w) prompt = Response r \<Longrightarrow>
   ask_orbit_loop K backend prompt mr (a # rest) w
     = Inr (Some r, w\<lparr>requests := requests w @ [model w]\<rparr>)"
  by (simp add: generate_content_def)

lemma loop_step_critical_single:
  "backend (requests w) (model w) prompt = Raised msg \<Longrightarrow> is_quota msg \<or> is_auth msg \<Longrightarrow>
   length K \<le> 1 \<Longrightarrow>
   ask_orbit_loop K backend prompt mr (a # rest) w
     = Inr (None, w\<lparr>requests := requests w @ [model w]\<rparr>)"
  by (simp add: generate_content_def rotate_key_single)

lemma loop_step_critical_many:
  "backend (requests w) (model w) prompt = Raised msg \<Longrightarrow> is_quota msg \<or> is_auth msg \<Longrightarrow>
   2 \<le> length K \<Longrightarrow>
   ask_orbit_loop K backend prompt mr (a # rest) w
     = ask_orbit_loop K backend prompt mr rest (fail_and_rotate K w)"
  by (simp add: generate_content_def rotate_key_many Let_def fail_and_rotate_def)

lemma loop_step_transient:
  "backend (requests w) (model w) prompt = Raised msg \<Longrightarrow> \<not> is_quota msg \<Longrightarrow> \<not> is_auth msg \<Longrightarrow>
   ask_orbit_loop K backend prompt mr (a # rest) w
     = (if a < mr - 1
        then ask_orbit_loop K backend prompt mr rest (w\<lparr>requests := requests w @ [model w]\<rparr>)
        else Inr (None, w\<lparr>requests := requests w @ [model w]\<rparr>))"
  by (simp add: generate_content_def)

declare ask_orbit_loop.simps(2) [simp del]

lemma ask_orbit_loop_returns:
  "\<exists>r w'. ask_orbit_loop K backend prompt mr as w = Inr (r, w')
     \<and> (\<forall>x. r = Some x \<longrightarrow> (\<exists>hist h. backend hist h prompt = Response x))
     \<and> model_name w' = model_name w \<and> probes w' = probes w"
proof (induction as arbitrary: w)
  case Nil
  then show ?case by simp
next
  case (Cons a rest)
  show ?case
  proof (cases "backend (requests w) (model w) prompt")
    case (Response r)
    then show ?thesis
      by (auto simp: loop_step_response)
  next
    case (Raised msg)
    show ?thesis
    proof (cases "is_quota msg \<or> is_auth msg")
      case True
      show ?thesis
      proof (cases "length K \<le> 1")
        case True
        with Raised \<open>is_quota msg \<or> is_auth msg\<close> show ?thesis
          by (simp add: loop_step_critical_single)
      next
        case False
        then have "2 \<le> length K" by simp
        with Raised True have
          "ask_orbit_loop K backend prompt mr (a # rest) w
             = ask_orbit_loop K backend prompt mr rest (fail_and_rotate K w)"
          by (rule loop_step_critical_many)
        moreover have "model_name (fail_and_rotate K w) = model_name w"
          "probes (fail_and_rotate K w) = probes w"
          by (simp_all add: fail_and_rotate_def Let_def)
        ultimately show ?thesis
          using Cons.IH [of "fail_and_rotate K w"] by simp
      qed
    next
      case False
      then have "\<not> is_quota msg" "\<not> is_auth msg" by simp_all
      with Raised have step:
        "ask_orbit_loop K backend prompt mr (a # rest) w
           = (if a < mr - 1
              then ask_orbit_loop K backend prompt mr rest (w\<lparr>requests := requests w @ [model w]\<rparr>)
              else Inr (None, w\<lparr>requests := requests w @ [model w]\<rparr>))"
        by (rule loop_step_transient)
      show ?thesis
      proof (cases "a < mr - 1")
        case True
        with step show ?thesis
          using Cons.IH [of "w\<lparr>requests := requests w @ [model w]\<rparr>"] by simp
      next
        case False
        with step show ?thesis by simp
      qed
    qed
  qed
qed


text \<open>
  C7. If the first call of the model succeeds, \<^verbatim>\<open>ask_orbit\<close> returns that response; the
  backend has seen exactly one request, and the cursor and everything else in the
  state are as before, so no rotation and no second attempt took place.
\<close>

theorem ask_orbit_first_success:
  assumes "backend (requests w) (model w) prompt = Response r"
  shows "ask_orbit GEMINI_API_KEYS backend prompt w
           = Inr (Some r, w\<lparr>requests := requests w @ [model w]\<rparr>)"
proof -
  have "0 < length GEMINI_API_KEYS + 1" by simp
  then have "[0..<length GEMINI_API_KEYS + 1] = 0 # [Suc 0..<length GEMINI_API_KEYS + 1]"
    by (rule upt_conv_Cons)
  with assms show ?thesis
    unfolding ask_orbit_def Let_def by (simp only: loop_step_response)
qed


theorem ask_orbit_first_success_witness:
  "(\<lambda>hist h p. Response (7::nat)) ([] :: model_handle list)
      \<lparr>handle_model = ''m'', handle_key = Some ''a''\<rparr> ''hi'' = Response 7
   \<and> ask_orbit [''a'', ''b''] (\<lambda>hist h p. Response (7::nat)) ''hi''
     \<lparr>key_index = 0, api_key = Some ''a'', requests = [], probes = 1, model_name = ''m'',
      model = \<lparr>handle_model = ''m'', handle_key = Some ''a''\<rparr>\<rparr>
   = Inr (Some 7,
     \<lparr>key_index = 0, api_key = Some ''a'',
      requests = [\<lparr>handle_model = ''m'', handle_key = Some ''a''\<rparr>],
      probes = 1, model_name = ''m'',
      model = \<lparr>handle_model = ''m'', handle_key = Some ''a''\<rparr>\<rparr>)"
  using ask_orbit_first_success
    [of "\<lambda>hist h p. Response (7::nat)"
        "\<lparr>key_index = 0, api_key = Some ''a'', requests = [], probes = 1, model_name = ''m'',
          model = \<lparr>handle_model = ''m'', handle_key = Some ''a''\<rparr>\<rparr>"
        "''hi''" 7 "[''a'', ''b'']"]
  by simp

lemma loop_transient_prefix:
  assumes "\<forall>i<n. transient_at backend prompt w i" and "a + n < mr"
  shows "ask_orbit_loop K backend prompt mr ([a..<a + n] @ rest) w
           = ask_orbit_loop K backend prompt mr rest
               (w\<lparr>requests := requests w @ replicate n (model w)\<rparr>)"
  using assms
proof (induction n arbitrary: a w)
  case 0
  then show ?case by simp
next
  case (Suc n)
  let ?w1 = "w\<lparr>requests := requests w @ [model w]\<rparr>"
  from Suc.prems(1) have "transient_at backend prompt w 0" by simp
  then obtain msg where m: "backend (requests w) (model w) prompt = Raised msg"
    "\<not> is_quota msg" "\<not> is_auth msg"
    by (auto simp: transient_at_def)
  have later: "\<forall>i<n. transient_at backend prompt ?w1 i"
  proof (intro allI impI)
    fix i assume "i < n"
    then have "transient_at backend prompt w (Suc i)" using Suc.prems(1) by simp
    then show "transient_at backend prompt ?w1 i"
      by (simp add: transient_at_def)
  qed
  have "a < a + Suc n" by simp
  then have split: "[a..<a + Suc n] = a # [Suc a..<Suc a + n]"
    by (simp add: upt_conv_Cons)
  from Suc.prems(2) have lt: "a < mr - 1" and bound: "Suc a + n < mr" by simp_all
  have "ask_orbit_loop K backend prompt mr ([a..<a + Suc n] @ rest) w
          = ask_orbit_loop K backend prompt mr ([Suc a..<Suc a + n] @ rest) ?w1"
    using loop_step_transient [of backend w prompt msg K mr a "[Suc a..<Suc a + n] @ rest"]
      m lt split by simp
  also have "\<dots> = ask_orbit_loop K backend prompt mr rest
                      (?w1\<lparr>requests := requests ?w1 @ replicate n (model ?w1)\<rparr>)"
    by (rule Suc.IH [OF later bound])
  also have "?w1\<lparr>requests := requests ?w1 @ replicate n (model ?w1)\<rparr>
               = w\<lparr>requests := requests w @ replicate (Suc n) (model w)\<rparr>"
    by simp
  finally show ?case .
qed


text \<open>
  C6. Suppose the first \<open>n\<close> attempts fail with Transient-class errors. If \<open>n\<close> is within
  the pool size, so that an attempt is left in the budget of pool size + 1, and that
  next attempt succeeds, \<^verbatim>\<open>ask_orbit\<close> returns its response; all \<open>n + 1\<close> requests went
  through the same handle and the cursor is unchanged. For \<open>n = 1\<close> this is a Transient
  failure on attempt 1 and success on attempt 2. If instead all pool size + 1 attempts
  fail so, the budget is used up and \<^verbatim>\<open>ask_orbit\<close> returns \<^verbatim>\<open>None\<close>, again without rotating.
\<close>

theorem ask_orbit_transient_retry:
  assumes prev: "\<forall>i<n. transient_at backend prompt w i"
  shows "(n \<le> length GEMINI_API_KEYS
            \<and> backend (requests w @ replicate n (model w)) (model w) prompt = Response r
          \<longrightarrow> ask_orbit GEMINI_API_KEYS backend prompt w
                = Inr (Some r, w\<lparr>requests := requests w @ replicate (Suc n) (model w)\<rparr>))
       \<and> (n = length GEMINI_API_KEYS + 1
          \<longrightarrow> ask_orbit GEMINI_API_KEYS backend prompt w
                = Inr (None, w\<lparr>requests := requests w @ replicate n (model w)\<rparr>))"
proof (intro conjI impI)
  let ?mr = "length GEMINI_API_KEYS + 1"
  assume h: "n \<le> length GEMINI_API_KEYS
      \<and> backend (requests w @ replicate n (model w)) (model w) prompt = Response r"
  let ?wn = "w\<lparr>requests := requests w @ replicate n (model w)\<rparr>"
  have "[0..<?mr] = [0..<0 + n] @ n # [Suc n..<?mr]"
    using h upt_add_eq_append [of 0 n "?mr - n"] by (simp add: upt_conv_Cons)
  then have "ask_orbit GEMINI_API_KEYS backend prompt w
          = ask_orbit_loop GEMINI_API_KEYS backend prompt ?mr ([0..<0 + n] @ n # [Suc n..<?mr]) w"
    by (simp only: ask_orbit_def Let_def)
  also have "\<dots> = ask_orbit_loop GEMINI_API_KEYS backend prompt ?mr (n # [Suc n..<?mr]) ?wn"
    using h by (intro loop_transient_prefix [OF prev]) simp
  also have "\<dots> = Inr (Some r, ?wn\<lparr>requests := requests ?wn @ [model ?wn]\<rparr>)"
    using h by (intro loop_step_response) simp
  also have "?wn\<lparr>requests := requests ?wn @ [model ?wn]\<rparr>
               = w\<lparr>requests := requests w @ replicate (Suc n) (model w)\<rparr>"
    by (simp add: replicate_append_same)
  finally show "ask_orbit GEMINI_API_KEYS backend prompt w
                = Inr (Some r, w\<lparr>requests := requests w @ replicate (Suc n) (model w)\<rparr>)" .
next
  let ?N = "length GEMINI_API_KEYS"
  let ?mr = "?N + 1"
  assume n: "n = ?mr"
  let ?wN = "w\<lparr>requests := requests w @ replicate ?N (model w)\<rparr>"
  have pre: "\<forall>i<?N. transient_at backend prompt w i" using prev n by simp
  from prev n have "transient_at backend prompt w ?N" by simp
  then obtain msg where m: "backend (requests ?wN) (model ?wN) prompt = Raised msg"
    "\<not> is_quota msg" "\<not> is_auth msg"
    by (auto simp: transient_at_def)
  have "ask_orbit GEMINI_API_KEYS backend prompt w
          = ask_orbit_loop GEMINI_API_KEYS backend prompt ?mr ([0..<0 + ?N] @ [?N]) w"
    by (simp add: ask_orbit_def Let_def)
  also have "\<dots> = ask_orbit_loop GEMINI_API_KEYS backend prompt ?mr [?N] ?wN"
    by (intro loop_transient_prefix [OF pre]) simp
  also have "\<dots> = Inr (None, ?wN\<lparr>requests := requests ?wN @ [model ?wN]\<rparr>)"
    using loop_step_transient [of backend ?wN prompt msg GEMINI_API_KEYS ?mr ?N "[]"] m by simp
  also have "?wN\<lparr>requests := requests ?wN @ [model ?wN]\<rparr>
               = w\<lparr>requests := requests w @ replicate n (model w)\<rparr>"
    using n by (simp add: replicate_append_same)
  finally show "ask_orbit GEMINI_API_KEYS backend prompt w
                = Inr (None, w\<lparr>requests := requests w @ replicate n (model w)\<rparr>)" .
qed


theorem ask_orbit_transient_retry_witness:
  "transient_at
        (\<lambda>hist h p. if hist = [] then Raised ''500 Internal'' else Response (7::nat))
        ''hi''
        \<lparr>key_index = 0, api_key = Some ''a'', requests = [], probes = 1, model_name = ''m'',
         model = \<lparr>handle_model = ''m'', handle_key = Some ''a''\<rparr>\<rparr> 0
   \<and> 1 \<le> length [''a'']
   \<and> ask_orbit [''a'']
        (\<lambda>hist h p. if hist = [] then Raised ''500 Internal'' else Response (7::nat))
        ''hi''
        \<lparr>key_index = 0, api_key = Some ''a'', requests = [], probes = 1, model_name = ''m'',
         model = \<lparr>handle_model = ''m'', handle_key = Some ''a''\<rparr>\<rparr>
     = Inr (Some 7,
        \<lparr>key_index = 0, api_key = Some ''a'',
         requests = [\<lparr>handle_model = ''m'', handle_key = Some ''a''\<rparr>,
                     \<lparr>handle_model = ''m'', handle_key = Some ''a''\<rparr>],
         probes = 1, model_name = ''m'',
         model = \<lparr>handle_model = ''m'', handle_key = Some ''a''\<rparr>\<rparr>)
   \<and> 2 = length [''a''] + 1
   \<and> ask_orbit [''a'']
        (\<lambda>hist h p. (Raised ''500 Internal'' :: nat outcome))
        ''hi''
        \<lparr>key_index = 0, api_key = Some ''a'', requests = [], probes = 1, model_name = ''m'',
         model = \<lparr>handle_model = ''m'', handle_key = Some ''a''\<rparr>\<rparr>
     = Inr (None,
        \<lparr>key_index = 0, api_key = Some ''a'',
         requests = [\<lparr>handle_model = ''m'', handle_key = Some ''a''\<rparr>,
                     \<lparr>handle_model = ''m'', handle_key = Some ''a''\<rparr>],
         probes = 1, model_name = ''m'',
         model = \<lparr>handle_model = ''m'', handle_key = Some ''a''\<rparr>\<rparr>)"
  using ask_orbit_transient_retry
    [of 1 "\<lambda>hist h p. if hist = [] then Raised ''500 Internal'' else Response (7::nat)"
        "''hi''"
        "\<lparr>key_index = 0, api_key = Some ''a'', requests = [], probes = 1, model_name = ''m'',
          model = \<lparr>handle_model = ''m'', handle_key = Some ''a''\<rparr>\<rparr>"
        "[''a'']" 7]
    ask_orbit_transient_retry
    [of 2 "\<lambda>hist h p. (Raised ''500 Internal'' :: nat outcome)"
        "''hi''"
        "\<lparr>key_index = 0, api_key = Some ''a'', requests = [], probes = 1, model_name = ''m'',
          model = \<lparr>handle_model = ''m'', handle_key = Some ''a''\<rparr>\<rparr>"
        "[''a'']"]
  by (simp add: transient_at_def is_quota_def is_auth_def lower_def char_lower_def
      numeral_2_eq_2 less_Suc_eq)

lemma rotated_handle_mod:
  "rotated_handle K nm (a mod int (length K) + b) = rotated_handle K nm (a + b)"
  by (simp add: rotated_handle_def mod_add_left_eq)

lemma loop_all_critical:
  assumes len: "2 \<le> length K"
    and allq: "\<forall>hist h. \<exists>msg. backend hist h prompt = Raised msg \<and> (is_quota msg \<or> is_auth msg)"
  shows "ask_orbit_loop K backend prompt mr as w = Inr (None, (fail_and_rotate K ^^ length as) w)"
proof (induction as arbitrary: w)
  case Nil
  then show ?case by simp
next
  case (Cons a rest)
  from allq obtain msg where m: "backend (requests w) (model w) prompt = Raised msg"
    "is_quota msg \<or> is_auth msg"
    by blast
  have "ask_orbit_loop K backend prompt mr (a # rest) w
          = ask_orbit_loop K backend prompt mr rest (fail_and_rotate K w)"
    using loop_step_critical_many [of backend w prompt msg K mr a rest] m len by simp
  also have "\<dots> = Inr (None, (fail_and_rotate K ^^ length rest) (fail_and_rotate K w))"
    by (rule Cons.IH)
  also have "(fail_and_rotate K ^^ length rest) (fail_and_rotate K w)
               = (fail_and_rotate K ^^ length (a # rest)) w"
    by (simp add: funpow_swap1)
  finally show ?case .
qed

lemma fail_and_rotate_iter:
  fixes K w n
  defines "v \<equiv> (fail_and_rotate K ^^ Suc n) w"
  shows "key_index v = (key_index w + int (Suc n)) mod int (length K)"
    and "model_name v = model_name w"
    and "model v = rotated_handle K (model_name w) (key_index w + int (Suc n))"
    and "requests v = requests w @ model w #
           map (\<lambda>i. rotated_handle K (model_name w) (key_index w + int i)) [1..<Suc n]"
  unfolding v_def
proof (induction n)
  case 0
  {
    case 1 show ?case by (simp add: fail_and_rotate_def Let_def)
  next
    case 2 show ?case by (simp add: fail_and_rotate_def Let_def)
  next
    case 3 show ?case by (simp add: fail_and_rotate_def Let_def)
  next
    case 4 show ?case by (simp add: fail_and_rotate_def Let_def)
  }
next
  case (Suc n)
  let ?u = "(fail_and_rotate K ^^ Suc n) w"
  have step: "(fail_and_rotate K ^^ Suc (Suc n)) w = fail_and_rotate K ?u" by simp
  {
    case 1
    have "key_index (fail_and_rotate K ?u) = (key_index ?u + 1) mod int (length K)"
      by (simp add: fail_and_rotate_def Let_def)
    also have "\<dots> = ((key_index w + int (Suc n)) mod int (length K) + 1) mod int (length K)"
      by (simp only: Suc.IH(1))
    also have "\<dots> = (key_index w + int (Suc n) + 1) mod int (length K)"
      by (rule mod_add_left_eq)
    also have "\<dots> = (key_index w + int (Suc (Suc n))) mod int (length K)"
      by (simp add: ac_simps)
    finally show ?case by (simp only: step)
  next
    case 2
    have "model_name (fail_and_rotate K ?u) = model_name ?u"
      by (simp add: fail_and_rotate_def Let_def)
    then show ?case by (simp only: step Suc.IH(2))
  next
    case 3
    have "model (fail_and_rotate K ?u) = rotated_handle K (model_name ?u) (key_index ?u + 1)"
      by (simp add: fail_and_rotate_def Let_def)
    also have "\<dots> = rotated_handle K (model_name w)
                       ((key_index w + int (Suc n)) mod int (length K) + 1)"
      by (simp only: Suc.IH(1) Suc.IH(2))
    also have "\<dots> = rotated_handle K (model_name w) (key_index w + int (Suc n) + 1)"
      by (rule rotated_handle_mod)
    also have "\<dots> = rotated_handle K (model_name w) (key_index w + int (Suc (Suc n)))"
      by (simp add: ac_simps)
    finally show ?case by (simp only: step)
  next
    case 4
    have "requests (fail_and_rotate K ?u) = requests ?u @ [model ?u]"
      by (simp add: fail_and_rotate_def Let_def)
    also have "\<dots> = (requests w @ model w #
           map (\<lambda>i. rotated_handle K (model_name w) (key_index w + int i)) [1..<Suc n])
           @ [rotated_handle K (model_name w) (key_index w + int (Suc n))]"
      by (simp only: Suc.IH(3) Suc.IH(4))
    also have "\<dots> = requests w @ model w #
           map (\<lambda>i. rotated_handle K (model_name w) (key_index w + int i)) [1..<Suc (Suc n)]"
      by simp
    finally show ?case by (simp only: step)
  }
qed


lemma cursor_reaches:
  fixes c :: int and N j :: nat
  assumes "j < N"
  shows "\<exists>i. 1 \<le> i \<and> i \<le> N \<and> (c + int i) mod int N = int j"
proof -
  let ?d = "(int j - c) mod int N"
  from assms have N: "0 < int N" by simp
  have d: "0 \<le> ?d" "?d < int N" using N by simp_all
  have tgt: "(c + ?d) mod int N = int j"
  proof -
    have "(c + ?d) mod int N = (c + (int j - c)) mod int N" by (rule mod_add_right_eq)
    also have "\<dots> = int j mod int N" by simp
    also have "\<dots> = int j" using assms by simp
    finally show ?thesis .
  qed
  show ?thesis
  proof (cases "?d = 0")
    case True
    with tgt have "(c + int N) mod int N = int j" by simp
    with assms show ?thesis by (intro exI [of _ N]) simp
  next
    case False
    with d have "1 \<le> nat ?d" "nat ?d \<le> N" "int (nat ?d) = ?d" by simp_all
    with tgt show ?thesis by (intro exI [of _ "nat ?d"]) simp
  qed
qed

text \<open>
  C1. With N \<ge> 2 credentials and a backend that answers every call with a Quota-class
  error, \<^verbatim>\<open>ask_orbit\<close> returns \<^verbatim>\<open>None\<close> after exactly N + 1 requests, its whole budget. The
  first request goes through the handle it started with; request \<open>i + 1\<close> goes through
  the handle rebuilt by the \<open>i\<close>-th rotation, bound to the credential at
  \<open>(cursor + i) mod N\<close>, so every credential of the pool is used by one of the N requests
  after the first. Each of the N + 1 failures rotates, which leaves the cursor at
  \<open>(cursor + N + 1) mod N\<close>.
\<close>

theorem ask_orbit_all_quota:
  assumes len: "2 \<le> length GEMINI_API_KEYS"
    and allq: "\<forall>hist h. \<exists>msg. backend hist h prompt = Raised msg \<and> is_quota msg"
  shows "\<exists>w'. ask_orbit GEMINI_API_KEYS backend prompt w = Inr (None, w')
       \<and> requests w' = requests w @ model w #
           map (\<lambda>i. rotated_handle GEMINI_API_KEYS (model_name w) (key_index w + int i))
             [1..<length GEMINI_API_KEYS + 1]
       \<and> length (requests w') = length (requests w) + (length GEMINI_API_KEYS + 1)
       \<and> key_index w' = (key_index w + int (length GEMINI_API_KEYS + 1)) mod int (length GEMINI_API_KEYS)
       \<and> (\<forall>k\<in>set GEMINI_API_KEYS.
            Some k \<in> handle_key ` set (drop (Suc (length (requests w))) (requests w')))"
proof -
  let ?K = GEMINI_API_KEYS
  let ?N = "length ?K"
  let ?H = "\<lambda>i. rotated_handle ?K (model_name w) (key_index w + int i)"
  define w' where "w' = (fail_and_rotate ?K ^^ Suc ?N) w"
  from allq have crit:
    "\<forall>hist h. \<exists>msg. backend hist h prompt = Raised msg \<and> (is_quota msg \<or> is_auth msg)"
    by blast
  have "ask_orbit ?K backend prompt w
          = ask_orbit_loop ?K backend prompt (?N + 1) [0..<?N + 1] w"
    by (simp only: ask_orbit_def Let_def)
  also have "\<dots> = Inr (None, (fail_and_rotate ?K ^^ length [0..<?N + 1]) w)"
    using len crit by (rule loop_all_critical)
  also have "(fail_and_rotate ?K ^^ length [0..<?N + 1]) w = w'"
    by (simp only: w'_def length_upt diff_zero Suc_eq_plus1)
  finally have run: "ask_orbit ?K backend prompt w = Inr (None, w')" .
  have reqs: "requests w' = requests w @ model w # map ?H [1..<?N + 1]"
    unfolding w'_def Suc_eq_plus1 [symmetric] by (rule fail_and_rotate_iter(4))
  have cur: "key_index w' = (key_index w + int (?N + 1)) mod int ?N"
    unfolding w'_def Suc_eq_plus1 [symmetric] by (rule fail_and_rotate_iter(1))
  have cnt: "length (requests w') = length (requests w) + (?N + 1)"
    by (simp only: reqs length_append list.size length_map length_upt)
  have later: "drop (Suc (length (requests w))) (requests w') = map ?H [1..<?N + 1]"
    by (simp add: reqs)
  have cover: "\<forall>k\<in>set ?K. Some k \<in> handle_key ` set (drop (Suc (length (requests w))) (requests w'))"
  proof
    fix k assume "k \<in> set ?K"
    then obtain j where j: "j < ?N" "?K ! j = k" by (auto simp: in_set_conv_nth)
    from cursor_reaches [OF j(1), of "key_index w"] obtain i where
      i: "1 \<le> i" "i \<le> ?N" "(key_index w + int i) mod int ?N = int j"
      by blast
    have "handle_key (?H i) = Some k"
      using i(3) j(2) by (simp add: rotated_handle_def)
    moreover have "?H i \<in> set (map ?H [1..<?N + 1])"
    proof -
      have "i \<in> set [1..<?N + 1]" using i(1,2) by auto
      then show ?thesis by (simp only: set_map) (rule imageI)
    qed
    ultimately show "Some k \<in> handle_key ` set (drop (Suc (length (requests w))) (requests w'))"
      unfolding later by (metis imageI)
  qed
  from run reqs cnt cur cover show ?thesis by blast
qed

theorem ask_orbit_all_quota_witness:
  "2 \<le> length [''a'', ''b'', ''c'']
   \<and> ask_orbit [''a'', ''b'', ''c''] (\<lambda>hist h p. (Raised ''429 Too Many Requests'' :: nat outcome)) ''hi''
        \<lparr>key_index = 0, api_key = Some ''a'', requests = [], probes = 1, model_name = ''m'',
         model = \<lparr>handle_model = ''m'', handle_key = Some ''a''\<rparr>\<rparr>
     = Inr (None,
        \<lparr>key_index = 1, api_key = Some ''b'',
         requests = [\<lparr>handle_model = ''m'', handle_key = Some ''a''\<rparr>,
                     \<lparr>handle_model = ''m'', handle_key = Some ''b''\<rparr>,
                     \<lparr>handle_model = ''m'', handle_key = Some ''c''\<rparr>,
                     \<lparr>handle_model = ''m'', handle_key = Some ''a''\<rparr>],
         probes = 1, model_name = ''m'',
         model = \<lparr>handle_model = ''m'', handle_key = Some ''b''\<rparr>\<rparr>)
   \<and> is_quota ''429 Too Many Requests''"
  using ask_orbit_all_quota
    [of "[''a'', ''b'', ''c'']" "\<lambda>hist h p. (Raised ''429 Too Many Requests'' :: nat outcome)" "''hi''"
        "\<lparr>key_index = 0, api_key = Some ''a'', requests = [], probes = 1, model_name = ''m'',
          model = \<lparr>handle_model = ''m'', handle_key = Some ''a''\<rparr>\<rparr>"]
  by (simp add: ask_orbit_def ask_orbit_loop.simps(2) generate_content_def is_quota_def
      rotate_key_def py_mod_def configure_genai_def py_index_def GenerativeModel_def)

subsection \<open>Model-name resolution\<close>

lemma priority1_find:
  "priority1 ms = map_option (replace ''models/'' '''') (find is_flash_15 ms)"
  by (induction ms) (simp_all add: is_flash_15_def del: replace.simps)

lemma priority2_find:
  "priority2 ms = map_option (replace ''models/'' '''') (find is_any_flash ms)"
  by (induction ms) (simp_all add: is_any_flash_def del: replace.simps)

lemma resolve_model_name_select:
  "fst (resolve_model_name K catalog w) =
     (case catalog of
        None \<Rightarrow> ''gemini-1.5-flash''
      | Some models \<Rightarrow> select_by_priority (capable models))"
  by (cases catalog)
    (auto simp add: resolve_model_name_def Let_def select_by_priority_def capable_def
      priority1_find priority2_find neq_Nil_conv
      simp del: replace.simps split: option.splits list.splits)

lemma strip_flash: "replace ''models/'' '''' ''models/gemini-1.5-flash'' = ''gemini-1.5-flash''"
  by code_simp

lemma flash_is_flash_15: "is_flash_15 ''models/gemini-1.5-flash''"
  by code_simp

lemma latest_not_flash_15: "\<not> is_flash_15 ''models/gemini-1.5-flash-latest''"
  by code_simp

text \<open>
  C5. The name \<^verbatim>\<open>resolve_model_name\<close> returns is the fallback \<^verbatim>\<open>gemini-1.5-flash\<close> when the
  probe raises, and otherwise the choice by priority among the names of the models
  that support \<^verbatim>\<open>generateContent\<close>, in catalog order: the first name that contains
  \<^verbatim>\<open>gemini-1.5-flash\<close> and neither \<^verbatim>\<open>latest\<close> nor \<^verbatim>\<open>exp\<close>; failing that the first that
  contains \<^verbatim>\<open>flash\<close> and neither \<^verbatim>\<open>gemini-2\<close> nor \<^verbatim>\<open>exp\<close>; failing that the first name;
  and the fallback when there is none. The chosen name is returned with \<^verbatim>\<open>models/\<close>
  removed. A catalog of \<^verbatim>\<open>models/gemini-1.5-flash\<close> and \<^verbatim>\<open>models/gemini-1.5-flash-latest\<close>,
  in either order, gives \<^verbatim>\<open>gemini-1.5-flash\<close>.
\<close>

theorem resolve_model_name_priority:
  "fst (resolve_model_name GEMINI_API_KEYS catalog w) =
     (case catalog of
        None \<Rightarrow> ''gemini-1.5-flash''
      | Some models \<Rightarrow> select_by_priority (capable models))
   \<and> fst (resolve_model_name GEMINI_API_KEYS
        (Some [\<lparr>name = ''models/gemini-1.5-flash'',
                 supported_generation_methods = [''generateContent'']\<rparr>,
               \<lparr>name = ''models/gemini-1.5-flash-latest'',
                 supported_generation_methods = [''generateContent'']\<rparr>]) w)
       = ''gemini-1.5-flash''
   \<and> fst (resolve_model_name GEMINI_API_KEYS
        (Some [\<lparr>name = ''models/gemini-1.5-flash-latest'',
                 supported_generation_methods = [''generateContent'']\<rparr>,
               \<lparr>name = ''models/gemini-1.5-flash'',
                 supported_generation_methods = [''generateContent'']\<rparr>]) w)
       = ''gemini-1.5-flash''"
  by (simp add: resolve_model_name_select capable_def select_by_priority_def
      flash_is_flash_15 latest_not_flash_15 strip_flash del: replace.simps)

subsection \<open>The model name over a session\<close>

lemma configure_genai_frame:
  "probes (snd (configure_genai K e)) = probes e"
  "key_index (snd (configure_genai K e)) = key_index e"
  "requests (snd (configure_genai K e)) = requests e"
  by (simp_all add: configure_genai_def split: sum.splits)

lemma resolve_model_name_probes:
  "probes (snd (resolve_model_name K catalog e)) = probes e + 1"
  by (simp add: resolve_model_name_def Let_def configure_genai_frame
      split: option.splits del: replace.simps)

lemma startup_stored:
  "model_name (startup K catalog (Some nm) e) = nm"
  "probes (startup K catalog (Some nm) e) = probes e"
  "handle_model (model (startup K catalog (Some nm) e)) = nm"
  by (simp_all add: startup_def Let_def configure_genai_frame GenerativeModel_def)

lemma startup_fresh:
  "model_name (startup K catalog None e) = fst (resolve_model_name K catalog e)"
  "probes (startup K catalog None e) = probes e + 1"
  by (simp_all add: startup_def Let_def configure_genai_frame resolve_model_name_probes
      case_prod_beta)

lemma rerun_frame:
  "model_name (rerun K catalog w) = model_name w"
  "probes (rerun K catalog w) = probes w"
  by (simp_all add: rerun_def startup_stored)

lemma first_run_probe:
  "probes (first_run K catalog e) = probes e + 1"
  by (simp add: first_run_def startup_fresh)

lemma ask_orbit_frame:
  "\<exists>r w'. ask_orbit K backend prompt w = Inr (r, w')
     \<and> model_name w' = model_name w \<and> probes w' = probes w"
  using ask_orbit_loop_returns [of K backend prompt "length K + 1" "[0..<length K + 1]" w]
  unfolding ask_orbit_def Let_def by blast

lemma session_run_frame:
  "\<exists>w'. session_run K evs w = Inr w' \<and> model_name w' = model_name w \<and> probes w' = probes w"
proof (induction evs arbitrary: w)
  case Nil
  then show ?case by simp
next
  case (Cons ev evs)
  show ?case
  proof (cases ev)
    case (Rerun catalog)
    with Cons.IH [of "rerun K catalog w"] show ?thesis
      by (simp add: rerun_frame)
  next
    case (Ask backend prompt)
    from ask_orbit_frame [of K backend prompt w] obtain r w1 where
      a: "ask_orbit K backend prompt w = Inr (r, w1)"
      "model_name w1 = model_name w" "probes w1 = probes w"
      by blast
    with Cons.IH [of w1] Ask show ?thesis by simp
  qed
qed

lemma rotate_key_True:
  assumes "rotate_key K w = Inr (True, w')"
  shows "2 \<le> length K"
    and "w' = w\<lparr>key_index := (key_index w + 1) mod int (length K),
                 api_key := Some (K ! nat ((key_index w + 1) mod int (length K))),
                 model := rotated_handle K (model_name w) (key_index w + 1)\<rparr>"
proof -
  show len: "2 \<le> length K"
  proof (rule ccontr)
    assume "\<not> 2 \<le> length K"
    then have "length K \<le> 1" by simp
    then have "rotate_key K w = Inr (False, w)" by (rule rotate_key_single)
    with assms show False by simp
  qed
  from rotate_key_many [OF len, of w] assms
  show "w' = w\<lparr>key_index := (key_index w + 1) mod int (length K),
                 api_key := Some (K ! nat ((key_index w + 1) mod int (length K))),
                 model := rotated_handle K (model_name w) (key_index w + 1)\<rparr>"
    by (simp add: Let_def)
qed

text \<open>
  C9. A rotation that succeeds leaves \<^verbatim>\<open>st.session_state.model_name\<close> as it was, makes
  no probe of the catalog, and rebuilds the handle with that same name on the credential
  under the new cursor, which is also the credential installed in the library. Over a
  session (the first run of the script on a fresh session state, then any reruns and
  any dispatches against any backend, with all the rotations these cause) the catalog
  is probed exactly once, by the first run, and the model name stays the one resolved
  then.
\<close>

theorem rotation_keeps_model_name:
  "(rotate_key GEMINI_API_KEYS w = Inr (True, w') \<longrightarrow>
      model_name w' = model_name w
    \<and> probes w' = probes w
    \<and> model w' = \<lparr>handle_model = model_name w,
                    handle_key = Some (GEMINI_API_KEYS ! nat (key_index w'))\<rparr>
    \<and> api_key w' = Some (GEMINI_API_KEYS ! nat (key_index w')))
   \<and> (\<exists>w''. session_run GEMINI_API_KEYS evs (first_run GEMINI_API_KEYS catalog e) = Inr w''
          \<and> probes w'' = probes e + 1
          \<and> model_name w'' = model_name (first_run GEMINI_API_KEYS catalog e))"
proof (intro conjI impI)
  assume r: "rotate_key GEMINI_API_KEYS w = Inr (True, w')"
  note eq = rotate_key_True(2) [OF r]
  show "model_name w' = model_name w" by (simp add: eq)
  show "probes w' = probes w" by (simp add: eq)
  show "model w' = \<lparr>handle_model = model_name w,
                    handle_key = Some (GEMINI_API_KEYS ! nat (key_index w'))\<rparr>"
    by (simp add: eq rotated_handle_def)
  show "api_key w' = Some (GEMINI_API_KEYS ! nat (key_index w'))" by (simp add: eq)
next
  from session_run_frame [of GEMINI_API_KEYS evs "first_run GEMINI_API_KEYS catalog e"]
  show "\<exists>w''. session_run GEMINI_API_KEYS evs (first_run GEMINI_API_KEYS catalog e) = Inr w''
          \<and> probes w'' = probes e + 1
          \<and> model_name w'' = model_name (first_run GEMINI_API_KEYS catalog e)"
    by (auto simp: first_run_probe)
qed

theorem rotation_keeps_model_name_witness:
  "rotate_key [''a'', ''b'']
     \<lparr>key_index = 0, api_key = Some ''a'', requests = [], probes = 1, model_name = ''m'',
      model = \<lparr>handle_model = ''m'', handle_key = Some ''a''\<rparr>\<rparr>
   = Inr (True,
     \<lparr>key_index = 1, api_key = Some ''b'', requests = [], probes = 1, model_name = ''m'',
      model = \<lparr>handle_model = ''m'', handle_key = Some ''b''\<rparr>\<rparr>)
   \<and> session_run [''a'', ''b'']
        [Rerun None, Ask (\<lambda>hist h p. (Raised ''429'' :: nat outcome)) ''hi'', Rerun None]
        (first_run [''a'', ''b''] None \<lparr>key_index = 0, api_key = None, requests = [], probes = 0\<rparr>)
   = Inr \<lparr>key_index = 1, api_key = Some ''b'',
      requests = [\<lparr>handle_model = ''gemini-1.5-flash'', handle_key = Some ''a''\<rparr>,
                  \<lparr>handle_model = ''gemini-1.5-flash'', handle_key = Some ''b''\<rparr>,
                  \<lparr>handle_model = ''gemini-1.5-flash'', handle_key = Some ''a''\<rparr>],
      probes = 1, model_name = ''gemini-1.5-flash'',
      model = \<lparr>handle_model = ''gemini-1.5-flash'', handle_key = Some ''b''\<rparr>\<rparr>"
  using rotation_keeps_model_name
    [of "[''a'', ''b'']"
        "\<lparr>key_index = 0, api_key = Some ''a'', requests = [], probes = 1, model_name = ''m'',
          model = \<lparr>handle_model = ''m'', handle_key = Some ''a''\<rparr>\<rparr>"
        "\<lparr>key_index = 1, api_key = Some ''b'', requests = [], probes = 1, model_name = ''m'',
          model = \<lparr>handle_model = ''m'', handle_key = Some ''b''\<rparr>\<rparr>"
        "[Rerun None, Ask (\<lambda>hist h p. (Raised ''429'' :: nat outcome)) ''hi'', Rerun None]"
        None "\<lparr>key_index = 0, api_key = None, requests = [], probes = 0\<rparr>"]
  by (simp add: first_run_def rerun_def startup_def resolve_model_name_def init_key_index_def
      ask_orbit_def ask_orbit_loop.simps(2) generate_content_def is_quota_def
      rotate_key_def py_mod_def configure_genai_def py_index_def GenerativeModel_def)

end
